theory Spec2Isabelle
  imports Main "HOL-Library.AList"
begin

section \<open>JavaScript values and string helpers used by the client\<close>

text \<open>
  A JavaScript string is modelled as a \<open>string\<close>: one HOL character per code unit.
  The functions below only compare code units for equality.

  \<open>json\<close> is the value that \<open>res.json()\<close> or \<open>JSON.stringify\<close> sees. Object keys are
  kept in insertion order. Numbers are integers here: the client only tests a number for
  truthiness.
\<close>

datatype json =
    JNull
  | JBool bool
  | JNum int
  | JStr string
  | JArr "json list"
  | JObj "(string \<times> json) list"

text \<open>
  Values that an api.ts function can throw. \<open>Error v\<close> is \<open>new Error(v)\<close>: for a string
  \<open>v = JStr s\<close> its message is \<open>s\<close>. \<open>TypeError\<close> is a failed \<open>fetch\<close> or a property read
  on \<open>null\<close>; \<open>SyntaxError\<close> is a rejected \<open>res.json()\<close>; \<open>ReadError\<close> is a rejected
  \<open>reader.read()\<close>.
\<close>

datatype js_error =
    Error json
  | TypeError
  | SyntaxError
  | ReadError

text \<open>
  \<open>get_prop v k\<close> is the property read \<open>v.k\<close> for the names this client reads
  (\<open>error\<close>, \<open>models\<close>): \<open>None\<close> is \<open>undefined\<close>; reading a property of \<open>null\<close> throws.
\<close>

fun get_prop :: "json \<Rightarrow> string \<Rightarrow> js_error + json option" where
  "get_prop JNull k = Inl TypeError"
| "get_prop (JObj kvs) k = Inr (map_of kvs k)"
| "get_prop v k = Inr None"

text \<open>JavaScript truthiness of a value that may be \<open>undefined\<close>.\<close>

fun truthy :: "json option \<Rightarrow> bool" where
  "truthy None = False"
| "truthy (Some JNull) = False"
| "truthy (Some (JBool b)) = b"
| "truthy (Some (JNum n)) = (n \<noteq> 0)"
| "truthy (Some (JStr s)) = (s \<noteq> [])"
| "truthy (Some (JArr xs)) = True"
| "truthy (Some (JObj kvs)) = True"

text \<open>\<open>a || b\<close> where \<open>a\<close> may be \<open>undefined\<close>.\<close>

definition js_or :: "json option \<Rightarrow> json \<Rightarrow> json" where
  "js_or a b = (case a of None \<Rightarrow> b | Some v \<Rightarrow> if truthy (Some v) then v else b)"

definition newline :: char where
  "newline = CHR 0x0A"

text \<open>
  \<open>split_on c s\<close> is \<open>s.split(c)\<close> for a one-character separator: it always returns at
  least one piece, and \<open>"".split("\n")\<close> is \<open>[""]\<close>.
\<close>

fun split_on :: "char \<Rightarrow> string \<Rightarrow> string list" where
  "split_on c [] = [[]]"
| "split_on c (x # xs) =
     (if x = c then [] # split_on c xs
      else (case split_on c xs of
              [] \<Rightarrow> [[x]]
            | l # ls \<Rightarrow> (x # l) # ls))"

definition startsWith :: "string \<Rightarrow> string \<Rightarrow> bool" where
  "startsWith s p = (take (length p) s = p)"

definition slice :: "string \<Rightarrow> nat \<Rightarrow> string" where
  "slice s n = drop n s"

section \<open>api.ts\<close>

datatype MessageRole = User | Assistant

record ChatMessage =
  role :: MessageRole
  content :: string

record request =
  http_method :: string
  url :: string
  headers :: "(string \<times> string) list"
  body :: "json option"

text \<open>
  The body of a streamed response as the reader yields it: the chunks of bytes read
  before the stream closes, and whether it closed (\<open>done\<close>) or a read was rejected.
\<close>

record stream_body =
  chunks :: "string list"
  closed_ok :: bool

text \<open>
  What the client reads of a \<open>Response\<close>: \<open>res.ok\<close>, \<open>res.statusText\<close>, the outcome of
  \<open>res.json()\<close> (\<open>None\<close> when it rejects) and \<open>res.body\<close> (\<open>None\<close> when null).
\<close>

record response =
  ok :: bool
  statusText :: string
  json_body :: "json option"
  res_body :: "stream_body option"

text \<open>What a call did: the requests it issued, in order, and what it returned or threw.\<close>

record 'a outcome =
  requests :: "request list"
  result :: "js_error + 'a"

text \<open>
  For the streaming call also the events given to \<open>onEvent\<close>, in call order, and the
  text left in the local \<open>buf\<close> when the read loop was left.
\<close>

record 'ev stream_outcome =
  s_requests :: "request list"
  events :: "'ev list"
  leftover :: string
  s_result :: "js_error + unit"

definition role_json :: "MessageRole \<Rightarrow> json" where
  "role_json r = (case r of User \<Rightarrow> JStr ''user'' | Assistant \<Rightarrow> JStr ''assistant'')"

definition message_json :: "ChatMessage \<Rightarrow> json" where
  "message_json m = JObj [(''role'', role_json (role m)), (''content'', JStr (content m))]"

text \<open>
  The object given to \<open>JSON.stringify\<close>: \<open>{ messages, model_ids: modelIds }\<close>. A key whose
  value is \<open>undefined\<close> is left out by \<open>JSON.stringify\<close>.
\<close>

definition debate_body :: "ChatMessage list \<Rightarrow> string list option \<Rightarrow> json" where
  "debate_body messages modelIds =
     JObj ((''messages'', JArr (map message_json messages)) #
           (case modelIds of
              None \<Rightarrow> []
            | Some ids \<Rightarrow> [(''model_ids'', JArr (map JStr ids))]))"

definition post_request :: "string \<Rightarrow> ChatMessage list \<Rightarrow> string list option \<Rightarrow> request" where
  "post_request u messages modelIds =
     \<lparr> http_method = ''POST'',
       url = u,
       headers = [(''Content-Type'', ''application/json'')],
       body = Some (debate_body messages modelIds) \<rparr>"

definition get_request :: "string \<Rightarrow> request" where
  "get_request u = \<lparr> http_method = ''GET'', url = u, headers = [], body = None \<rparr>"

text \<open>
  \<open>getAvailableModels\<close>. \<open>API_BASE\<close> and \<open>fetch\<close> are parameters: the base URL comes from
  the build environment and \<open>fetch\<close> is the network.
\<close>

definition getAvailableModels ::
  "string \<Rightarrow> (request \<Rightarrow> js_error + response) \<Rightarrow> json outcome" where
  "getAvailableModels API_BASE fetch =
     (let req = get_request (API_BASE @ ''/models'') in
      \<lparr> requests = [req],
        result =
          (case fetch req of
             Inl e \<Rightarrow> Inl e
           | Inr res \<Rightarrow>
               if \<not> ok res then Inr (JArr [])
               else (case json_body res of
                       None \<Rightarrow> Inl SyntaxError
                     | Some data \<Rightarrow>
                         (case get_prop data ''models'' of
                            Inl e \<Rightarrow> Inl e
                          | Inr m \<Rightarrow> Inr (js_or m (JArr []))))) \<rparr>)"

text \<open>
  The non-2xx branch shared by both POST calls:
  \<open>const err = await res.json().catch(() => ({})); throw new Error(err.error || res.statusText)\<close>.
\<close>

definition throw_http_error :: "response \<Rightarrow> js_error" where
  "throw_http_error res =
     (let err = (case json_body res of None \<Rightarrow> JObj [] | Some v \<Rightarrow> v) in
      case get_prop err ''error'' of
        Inl e \<Rightarrow> e
      | Inr f \<Rightarrow> Error (js_or f (JStr (statusText res))))"

definition sendDebateRound ::
  "string \<Rightarrow> (request \<Rightarrow> js_error + response) \<Rightarrow>
   ChatMessage list \<Rightarrow> string list option \<Rightarrow> json outcome" where
  "sendDebateRound API_BASE fetch messages modelIds =
     (let req = post_request (API_BASE @ ''/debate'') messages modelIds in
      \<lparr> requests = [req],
        result =
          (case fetch req of
             Inl e \<Rightarrow> Inl e
           | Inr res \<Rightarrow>
               if \<not> ok res then Inl (throw_http_error res)
               else (case json_body res of
                       None \<Rightarrow> Inl SyntaxError
                     | Some v \<Rightarrow> Inr v)) \<rparr>)"

text \<open>
  \<open>new TextDecoder()\<close> used with \<open>{ stream: true }\<close> is a state machine over bytes: it
  keeps its state between calls and emits the text each byte completes. Its byte handler
  is a parameter \<open>h\<close>, its state \<open>d\<close>.
\<close>

fun decode :: "('d \<Rightarrow> char \<Rightarrow> 'd \<times> string) \<Rightarrow> 'd \<Rightarrow> string \<Rightarrow> 'd \<times> string" where
  "decode h d [] = (d, [])"
| "decode h d (b # bs) =
     (case h d b of
        (d1, out) \<Rightarrow> (case decode h d1 bs of (d2, rest) \<Rightarrow> (d2, out @ rest)))"

text \<open>
  The \<open>for\<close> loop over the complete lines of one read. \<open>JSON_parse\<close> is a parameter:
  \<open>None\<close> is a thrown \<open>SyntaxError\<close>, which the \<open>catch\<close> swallows. The result lists the
  arguments of the \<open>onEvent\<close> calls, in order.
\<close>

fun process_lines :: "(string \<Rightarrow> 'ev option) \<Rightarrow> string list \<Rightarrow> 'ev list" where
  "process_lines JSON_parse [] = []"
| "process_lines JSON_parse (line # later) =
     (if startsWith line ''data: '' then
        (case JSON_parse (slice line 6) of
           Some data \<Rightarrow> data # process_lines JSON_parse later
         | None \<Rightarrow> process_lines JSON_parse later)
      else process_lines JSON_parse later)"

text \<open>
  The \<open>while (true)\<close> loop, one step per read that yields a chunk; it is left when the
  reads are used up. Returns the final \<open>buf\<close> and the events delivered.
\<close>

fun read_loop ::
  "(string \<Rightarrow> 'ev option) \<Rightarrow> ('d \<Rightarrow> char \<Rightarrow> 'd \<times> string) \<Rightarrow> 'd \<Rightarrow> string \<Rightarrow>
   string list \<Rightarrow> string \<times> 'ev list" where
  "read_loop JSON_parse h d buf [] = (buf, [])"
| "read_loop JSON_parse h d buf (chunk # later) =
     (case decode h d chunk of
        (d1, txt) \<Rightarrow>
          (let lines = split_on newline (buf @ txt);
               buf1 = (if lines = [] then [] else last lines);
               lines1 = butlast lines
           in case read_loop JSON_parse h d1 buf1 later of
                (buf2, evs) \<Rightarrow> (buf2, process_lines JSON_parse lines1 @ evs)))"

definition sendDebateRoundStream ::
  "string \<Rightarrow> (request \<Rightarrow> js_error + response) \<Rightarrow> (string \<Rightarrow> 'ev option) \<Rightarrow>
   ('d \<Rightarrow> char \<Rightarrow> 'd \<times> string) \<Rightarrow> 'd \<Rightarrow>
   ChatMessage list \<Rightarrow> string list option \<Rightarrow> 'ev stream_outcome" where
  "sendDebateRoundStream API_BASE fetch JSON_parse h d0 messages modelIds =
     (let req = post_request (API_BASE @ ''/debate/stream'') messages modelIds in
      case fetch req of
        Inl e \<Rightarrow> \<lparr> s_requests = [req], events = [], leftover = [], s_result = Inl e \<rparr>
      | Inr res \<Rightarrow>
          if \<not> ok res then
            \<lparr> s_requests = [req], events = [], leftover = [],
              s_result = Inl (throw_http_error res) \<rparr>
          else (case res_body res of
                  None \<Rightarrow>
                    \<lparr> s_requests = [req], events = [], leftover = [],
                      s_result = Inl (Error (JStr ''No response body'')) \<rparr>
                | Some b \<Rightarrow>
                    (case read_loop JSON_parse h d0 [] (chunks b) of
                       (buf, evs) \<Rightarrow>
                         \<lparr> s_requests = [req], events = evs, leftover = buf,
                           s_result = (if closed_ok b then Inr () else Inl ReadError) \<rparr>)))"

section \<open>What the stream delivers, in the words of the interface\<close>

text \<open>
  The complete lines of a text: the pieces that a newline terminates. Text after the
  last newline is not a line yet.
\<close>

fun lines_from :: "string \<Rightarrow> string \<Rightarrow> string list" where
  "lines_from cur [] = []"
| "lines_from cur (c # cs) =
     (if c = newline then cur # lines_from [] cs else lines_from (cur @ [c]) cs)"

definition complete_lines :: "string \<Rightarrow> string list" where
  "complete_lines s = lines_from [] s"

text \<open>The event a line carries: the parse of what follows the prefix \<open>data: \<close>, if any.\<close>

definition event_of_line :: "(string \<Rightarrow> 'ev option) \<Rightarrow> string \<Rightarrow> 'ev option" where
  "event_of_line JSON_parse line =
     (if take 6 line = ''data: '' then JSON_parse (drop 6 line) else None)"

definition stream_text :: "('d \<Rightarrow> char \<Rightarrow> 'd \<times> string) \<Rightarrow> 'd \<Rightarrow> string list \<Rightarrow> string" where
  "stream_text h d0 cs = snd (decode h d0 (concat cs))"

section \<open>The App component\<close>

text \<open>
  \<open>ProviderResponse\<close> of api.ts: \<open>resp_content\<close> is its \<open>content\<close>, \<open>resp_error\<close> its
  \<open>error\<close> (\<open>None\<close> is \<open>null\<close>).
\<close>

record ProviderResponse =
  provider_id :: string
  resp_content :: string
  resp_error :: "string option"

record Turn =
  user :: string
  responses :: "ProviderResponse list"

text \<open>
  \<open>StreamEvent\<close> of api.ts, as the callback of the App is typed: every field but
  \<open>model_id\<close> is optional (\<open>None\<close>: the key is absent). \<open>ev_done\<close> is \<open>done\<close>, \<open>ev_error\<close> is
  \<open>error\<close>.
\<close>

record StreamEvent =
  model_id :: string
  delta :: "string option"
  ev_done :: "bool option"
  ev_error :: "string option"

text \<open>
  The state \<open>streamingTurn\<close>. Its \<open>content\<close> and \<open>errors\<close> are plain objects: their own
  properties are kept as association lists in creation order.
\<close>

record StreamingTurn =
  st_user :: string
  st_content :: "(string \<times> string) list"
  st_errors :: "(string \<times> string) list"

text \<open>The React state of the component; \<open>selectedModels\<close> is a \<open>Set\<close> in insertion order.\<close>

record AppState =
  turns :: "Turn list"
  input :: string
  loading :: bool
  streaming :: bool
  streamingTurn :: "StreamingTurn option"
  error :: "string option"
  availableModels :: "string list"
  selectedModels :: "string list"

text \<open>
  What a rejected api call hands to \<open>catch\<close>: an \<open>Error\<close> instance with its message, or
  any other value.
\<close>

datatype thrown = ErrorObject string | OtherThrown

text \<open>
  The two functions the submit handler imports from api.ts, with the types api.ts
  declares for them. The streaming call yields the events it gives to its callback and
  then resolves or rejects.
\<close>

record Api =
  api_sendDebateRound ::
    "ChatMessage list \<Rightarrow> string list \<Rightarrow> thrown + ProviderResponse list"
  api_sendDebateRoundStream ::
    "ChatMessage list \<Rightarrow> string list \<Rightarrow> StreamEvent list \<times> (thrown + unit)"

datatype api_call =
    CallSendDebateRound "ChatMessage list" "string list"
  | CallSendDebateRoundStream "ChatMessage list" "string list"

text \<open>
  A plain object with string values. The read \<open>obj[k]\<close> finds an own property first and
  then what every plain object inherits from \<open>Object.prototype\<close>. An inherited value is a
  function (for \<open>__proto__\<close>, the prototype object itself). The component only compares such
  a value with \<open>null\<close> and \<open>undefined\<close>, tests it for truthiness, or turns it into text, so
  the model keeps it as its text: \<open>[object Object]\<close> for the prototype object and, for a
  function, the text V8 prints (other engines space it differently).
\<close>

definition native_function :: "string \<Rightarrow> string" where
  "native_function n = ''function '' @ n @ ''() { [native code] }''"

definition object_prototype :: "(string \<times> string) list" where
  "object_prototype =
     [(''constructor'', native_function ''Object''),
      (''__defineGetter__'', native_function ''__defineGetter__''),
      (''__defineSetter__'', native_function ''__defineSetter__''),
      (''hasOwnProperty'', native_function ''hasOwnProperty''),
      (''__lookupGetter__'', native_function ''__lookupGetter__''),
      (''__lookupSetter__'', native_function ''__lookupSetter__''),
      (''isPrototypeOf'', native_function ''isPrototypeOf''),
      (''propertyIsEnumerable'', native_function ''propertyIsEnumerable''),
      (''toString'', native_function ''toString''),
      (''valueOf'', native_function ''valueOf''),
      (''toLocaleString'', native_function ''toLocaleString''),
      (''__proto__'', ''[object Object]'')]"

definition obj_get :: "(string \<times> string) list \<Rightarrow> string \<Rightarrow> string option" where
  "obj_get obj k =
     (case map_of obj k of
        Some v \<Rightarrow> Some v
      | None \<Rightarrow> map_of object_prototype k)"

text \<open>
  The write \<open>obj[k] = v\<close> of a string \<open>v\<close>: it creates or overwrites an own property,
  except for \<open>__proto__\<close>, whose inherited setter ignores a value that is not an object.
\<close>

definition obj_set ::
  "(string \<times> string) list \<Rightarrow> string \<Rightarrow> string \<Rightarrow> (string \<times> string) list" where
  "obj_set obj k v = (if k = ''__proto__'' then obj else AList.update k v obj)"

text \<open>
  \<open>Object.entries\<close> lists the own properties whose keys are array indices (canonical
  decimal numerals below \<open>2^32 - 1\<close>) first, in ascending order, and then the others in
  creation order.
\<close>

definition digit_val :: "char \<Rightarrow> int option" where
  "digit_val c =
     map_of
       [(CHR ''0'', 0), (CHR ''1'', 1), (CHR ''2'', 2), (CHR ''3'', 3), (CHR ''4'', 4),
        (CHR ''5'', 5), (CHR ''6'', 6), (CHR ''7'', 7), (CHR ''8'', 8), (CHR ''9'', 9)] c"

fun dec_val :: "int \<Rightarrow> string \<Rightarrow> int option" where
  "dec_val acc [] = Some acc"
| "dec_val acc (c # cs) =
     (case digit_val c of
        None \<Rightarrow> None
      | Some d \<Rightarrow> dec_val (10 * acc + d) cs)"

definition array_index :: "string \<Rightarrow> int option" where
  "array_index k =
     (if k = [] \<or> (take 1 k = ''0'' \<and> k \<noteq> ''0'') then None
      else (case dec_val 0 k of
              None \<Rightarrow> None
            | Some n \<Rightarrow> if n < 4294967295 then Some n else None))"

definition own_entries :: "(string \<times> string) list \<Rightarrow> (string \<times> string) list" where
  "own_entries obj =
     sort_key (\<lambda>e. case array_index (fst e) of Some n \<Rightarrow> n | None \<Rightarrow> 0)
       (filter (\<lambda>e. array_index (fst e) \<noteq> None) obj) @
     filter (\<lambda>e. array_index (fst e) = None) obj"

text \<open>
  \<open>getProviderLabel\<close>: \<open>known[id] ?? id\<close>, as the template string of the submit handler
  prints it.
\<close>

definition known :: "(string \<times> string) list" where
  "known =
     [(''chatgpt'', ''ChatGPT''),
      (''gemini'', ''Gemini''),
      (''grok'', ''Grok''),
      (''kimi'', ''Kimi''),
      (''claude'', ''Claude'')]"

definition getProviderLabel :: "string \<Rightarrow> string" where
  "getProviderLabel k = (case obj_get known k of Some l \<Rightarrow> l | None \<Rightarrow> k)"

text \<open>White space that \<open>String.prototype.trim\<close> strips, among the code units below 256.\<close>

definition is_ws :: "char \<Rightarrow> bool" where
  "is_ws c = (c \<in> set [CHR 0x09, CHR 0x0A, CHR 0x0B, CHR 0x0C, CHR 0x0D, CHR 0x20, CHR 0xA0])"

definition trim :: "string \<Rightarrow> string" where
  "trim s = rev (dropWhile is_ws (rev (dropWhile is_ws s)))"

text \<open>The filter \<open>r.content && !r.error\<close>.\<close>

definition has_content_no_error :: "ProviderResponse \<Rightarrow> bool" where
  "has_content_no_error r =
     (resp_content r \<noteq> [] \<and>
      \<not> (case resp_error r of None \<Rightarrow> False | Some e \<Rightarrow> e \<noteq> []))"

definition model_message :: "ProviderResponse \<Rightarrow> ChatMessage" where
  "model_message r =
     \<lparr> role = Assistant,
       content = ''Model '' @ getProviderLabel (provider_id r) @ '': '' @ resp_content r \<rparr>"

text \<open>The callback of \<open>turns.flatMap\<close>.\<close>

definition turnMessages :: "Turn \<Rightarrow> ChatMessage list" where
  "turnMessages t =
     \<lparr> role = User, content = user t \<rparr> #
     map model_message (filter has_content_no_error (responses t))"

text \<open>The \<open>messages\<close> array that the submit handler sends.\<close>

definition build_messages :: "Turn list \<Rightarrow> string \<Rightarrow> ChatMessage list" where
  "build_messages ts txt =
     concat (map turnMessages ts) @ [\<lparr> role = User, content = txt \<rparr>]"

text \<open>
  The \<open>onEvent\<close> callback given to \<open>sendDebateRoundStream\<close>: the state update it queues on
  \<open>streamingTurn\<close>.
\<close>

definition onEvent :: "StreamEvent \<Rightarrow> StreamingTurn option \<Rightarrow> StreamingTurn option" where
  "onEvent ev prev =
     (case prev of
        None \<Rightarrow> None
      | Some p \<Rightarrow>
          (let k = model_id ev;
               n1 = (case delta ev of
                       None \<Rightarrow> p
                     | Some dl \<Rightarrow>
                         if dl \<noteq> [] then
                           p\<lparr> st_content :=
                                obj_set (st_content p) k
                                  ((case obj_get (st_content p) k of None \<Rightarrow> [] | Some c \<Rightarrow> c) @ dl) \<rparr>
                         else p);
               n2 = (case ev_error ev of
                       None \<Rightarrow> n1
                     | Some e \<Rightarrow>
                         if e \<noteq> [] then n1\<lparr> st_errors := obj_set (st_errors n1) k e \<rparr>
                         else n1)
           in Some n2))"

text \<open>All the events of a stream, applied in arrival order.\<close>

definition deliver :: "StreamEvent list \<Rightarrow> StreamingTurn option \<Rightarrow> StreamingTurn option" where
  "deliver evs st = foldl (\<lambda>s ev. onEvent ev s) st evs"

text \<open>
  The responses assembled once the stream has ended: one per entry of
  \<open>Object.entries(prev.content)\<close>, then one per key of \<open>Object.keys(prev.errors)\<close> that has
  no response yet. \<open>prev.errors[id] ?? null\<close> is a read of a plain object.
\<close>

definition push_error_only ::
  "(string \<times> string) list \<Rightarrow> ProviderResponse list \<Rightarrow> string \<Rightarrow> ProviderResponse list" where
  "push_error_only errs rs k =
     (if \<not> list_ex (\<lambda>r. provider_id r = k) rs
      then rs @ [\<lparr> provider_id = k, resp_content = [], resp_error = obj_get errs k \<rparr>]
      else rs)"

definition stream_responses :: "StreamingTurn \<Rightarrow> ProviderResponse list" where
  "stream_responses p =
     foldl (push_error_only (st_errors p))
       (map (\<lambda>(k, c). \<lparr> provider_id = k, resp_content = c, resp_error = obj_get (st_errors p) k \<rparr>)
          (own_entries (st_content p)))
       (map fst (own_entries (st_errors p)))"

definition error_message :: "thrown \<Rightarrow> string" where
  "error_message e = (case e of ErrorObject m \<Rightarrow> m | OtherThrown \<Rightarrow> ''Request failed'')"

definition select_prompt :: string where
  "select_prompt = ''Please select at least one model to participate.''"

text \<open>
  \<open>handleSubmit\<close>: the state once the handler has run to its end, and the api calls it
  made.
\<close>

definition handleSubmit :: "Api \<Rightarrow> AppState \<Rightarrow> AppState \<times> api_call list" where
  "handleSubmit api s =
     (let txt = trim (input s) in
      if txt = [] \<or> loading s then (s, [])
      else if length (selectedModels s) = 0 then (s\<lparr> error := Some select_prompt \<rparr>, [])
      else
        (let s1 = s\<lparr> input := [], error := None \<rparr>;
             messages = build_messages (turns s) txt;
             s2 = s1\<lparr> loading := True \<rparr>
         in if streaming s then
              (let s3 = s2\<lparr> streamingTurn :=
                              Some \<lparr> st_user = txt, st_content = [], st_errors = [] \<rparr> \<rparr>;
                   (evs, res) = api_sendDebateRoundStream api messages (selectedModels s);
                   s4 = s3\<lparr> streamingTurn := deliver evs (streamingTurn s3) \<rparr>;
                   s5 = (case res of
                           Inr u \<Rightarrow>
                             (case streamingTurn s4 of
                                None \<Rightarrow> s4\<lparr> streamingTurn := None \<rparr>
                              | Some p \<Rightarrow>
                                  s4\<lparr> turns := turns s4 @
                                         [\<lparr> user = st_user p, responses = stream_responses p \<rparr>],
                                      streamingTurn := None \<rparr>)
                         | Inl err \<Rightarrow>
                             s4\<lparr> error := Some (error_message err), streamingTurn := None \<rparr>)
               in (s5\<lparr> loading := False \<rparr>,
                   [CallSendDebateRoundStream messages (selectedModels s)]))
            else
              (let s3 = (case api_sendDebateRound api messages (selectedModels s) of
                           Inr rs \<Rightarrow> s2\<lparr> turns := turns s2 @ [\<lparr> user = txt, responses = rs \<rparr>] \<rparr>
                         | Inl err \<Rightarrow> s2\<lparr> error := Some (error_message err) \<rparr>)
               in (s3\<lparr> loading := False \<rparr>,
                   [CallSendDebateRound messages (selectedModels s)]))))"

section \<open>The conversation and the lanes, in the words of the interface\<close>

text \<open>
  The delta texts of one provider's events, concatenated in arrival order, and the
  content the streaming turn holds for a provider: the own property of \<open>content\<close> under
  the provider's identifier, which is what \<open>Object.entries\<close> hands to the recorded turn,
  or the empty text when there is none.
\<close>

definition lane_deltas :: "string \<Rightarrow> StreamEvent list \<Rightarrow> string" where
  "lane_deltas k evs =
     concat (List.map_filter (\<lambda>ev. if model_id ev = k then delta ev else None) evs)"

definition lane_content :: "string \<Rightarrow> StreamingTurn option \<Rightarrow> string" where
  "lane_content k st =
     (case st of
        None \<Rightarrow> []
      | Some p \<Rightarrow> (case map_of (st_content p) k of None \<Rightarrow> [] | Some c \<Rightarrow> c))"



section \<open>Concrete inputs for the worked instances\<close>

text \<open>
  A decoder that emits each byte as one code unit, a parser that accepts any text in
  braces, responses with a given body, and streams cut into chunks in two ways.
\<close>

definition latin_decoder :: "unit \<Rightarrow> char \<Rightarrow> unit \<times> string" where
  "latin_decoder d b = (d, [b])"

definition braces_parse :: "string \<Rightarrow> string option" where
  "braces_parse s = (if take 1 s = ''{'' \<and> take 1 (rev s) = ''}'' then Some s else None)"

definition stream_response :: "string list \<Rightarrow> response" where
  "stream_response cs =
     \<lparr> ok = True, statusText = ''OK'', json_body = None,
       res_body = Some \<lparr> chunks = cs, closed_ok = True \<rparr> \<rparr>"

definition two_events_chunks :: "string list" where
  "two_events_chunks =
     [''data: {a}'' @ [newline] @ ''da'', ''ta: oops'' @ [newline] @ ''data: {b}'' @ [newline]]"

definition two_events_rechunked :: "string list" where
  "two_events_rechunked =
     [''data: {a}'', [newline] @ ''data: oops'' @ [newline] @ ''data: '', ''{b}'' @ [newline]]"

definition unterminated_chunks :: "string list" where
  "unterminated_chunks = [''data: {a}'' @ [newline] @ ''data: {d'', ''one}'']"

definition error_response :: "json option \<Rightarrow> response" where
  "error_response j =
     \<lparr> ok = False, statusText = ''Bad Request'', json_body = j, res_body = None \<rparr>"

definition ok_response :: "json option \<Rightarrow> response" where
  "ok_response j = \<lparr> ok = True, statusText = ''OK'', json_body = j, res_body = None \<rparr>"

definition hello :: "ChatMessage list" where
  "hello = [\<lparr> role = User, content = ''hi'' \<rparr>]"

text \<open>
  The three kinds of stream event, a streaming turn as the submit handler starts it, an
  idle state of the component, an api whose stream yields given events, and a recorded
  turn with one answer and one failure.
\<close>

definition Delta :: "string \<Rightarrow> string \<Rightarrow> StreamEvent" where
  "Delta k t = \<lparr> model_id = k, delta = Some t, ev_done = None, ev_error = None \<rparr>"

definition Done :: "string \<Rightarrow> StreamEvent" where
  "Done k = \<lparr> model_id = k, delta = None, ev_done = Some True, ev_error = None \<rparr>"

definition Failed :: "string \<Rightarrow> string \<Rightarrow> StreamEvent" where
  "Failed k e = \<lparr> model_id = k, delta = None, ev_done = None, ev_error = Some e \<rparr>"

definition fresh_turn :: "string \<Rightarrow> StreamingTurn option" where
  "fresh_turn u = Some \<lparr> st_user = u, st_content = [], st_errors = [] \<rparr>"

definition idle_state :: "string \<Rightarrow> bool \<Rightarrow> string list \<Rightarrow> AppState" where
  "idle_state txt str sel =
     \<lparr> turns = [], input = txt, loading = False, streaming = str, streamingTurn = None,
       error = None, availableModels = [''a'', ''b''], selectedModels = sel \<rparr>"

definition stub_api :: "StreamEvent list \<Rightarrow> Api" where
  "stub_api evs =
     \<lparr> api_sendDebateRound = (\<lambda>ms ids. Inr (map (\<lambda>k. \<lparr> provider_id = k, resp_content = [], resp_error = None \<rparr>) ids)),
       api_sendDebateRoundStream = (\<lambda>ms ids. (evs, Inr ())) \<rparr>"


section \<open>Lemmas about splitting and the read loop\<close>

lemma split_on_nonempty: "split_on c s \<noteq> []"
  by (induction s) (auto split: list.splits)

lemma split_on_append:
  "split_on c (a @ b) = butlast (split_on c a) @ split_on c (last (split_on c a) @ b)"
proof (induction a)
  case Nil
  then show ?case by simp
next
  case (Cons x a)
  show ?case
  proof (cases "x = c")
    case True
    then show ?thesis using Cons split_on_nonempty[of c a] by simp
  next
    case False
    obtain l ls where s: "split_on c a = l # ls"
      using split_on_nonempty[of c a] by (cases "split_on c a") auto
    show ?thesis
    proof (cases ls)
      case Nil
      then show ?thesis using False s Cons by simp
    next
      case (Cons m ms)
      then show ?thesis using False s Cons.IH by (simp split: list.splits)
    qed
  qed
qed

lemma split_on_last_no_sep: "c \<notin> set (last (split_on c s))"
  by (induction s) (auto split: list.splits simp: split_on_nonempty)

lemma split_on_no_sep: "c \<notin> set s \<Longrightarrow> split_on c s = [s]"
  by (induction s) (auto split: list.splits)

lemma split_on_snoc_sep: "split_on c (s @ [c]) = split_on c s @ [[]]"
  by (induction s) (auto split: list.splits simp: split_on_nonempty)

lemma last_split_on_sep:
  assumes "s \<noteq> []" and "last s = c"
  shows "last (split_on c s) = []"
proof -
  have "s = butlast s @ [c]" using assms by (metis append_butlast_last_id)
  then have "split_on c s = split_on c (butlast s) @ [[]]"
    using split_on_snoc_sep[of c "butlast s"] by simp
  then show ?thesis by simp
qed

lemma split_on_tail:
  assumes "t = [] \<or> last t = c" and "c \<notin> set l"
  shows "split_on c (t @ l) = butlast (split_on c t) @ [l]"
proof (cases "t = []")
  case True
  then show ?thesis using assms by (simp add: split_on_no_sep)
next
  case False
  then have "last (split_on c t) = []" using assms last_split_on_sep by blast
  then show ?thesis using split_on_append[of c t l] assms by (simp add: split_on_no_sep)
qed

lemma decode_append:
  "decode h d (a @ b) =
     (case decode h d a of (d1, t1) \<Rightarrow> (case decode h d1 b of (d2, t2) \<Rightarrow> (d2, t1 @ t2)))"
  by (induction a arbitrary: d) (auto split: prod.splits)

lemma process_lines_append:
  "process_lines p (xs @ ys) = process_lines p xs @ process_lines p ys"
  by (induction xs) (auto split: option.splits)

lemma startsWith_data: "startsWith line ''data: '' = (take 6 line = ''data: '')"
proof -
  have "length ''data: '' = 6" by simp
  then show ?thesis unfolding startsWith_def by metis
qed

lemma process_lines_map_filter:
  "process_lines p ls = List.map_filter (event_of_line p) ls"
  by (induction ls)
     (simp_all add: List.map_filter_simps event_of_line_def startsWith_data slice_def
        split: option.splits)

lemma lines_from_split:
  "lines_from cur s = butlast ((cur @ hd (split_on newline s)) # tl (split_on newline s))"
proof (induction s arbitrary: cur)
  case Nil
  then show ?case by simp
next
  case (Cons x s)
  obtain l ls where s: "split_on newline s = l # ls"
    using split_on_nonempty[of newline s] by (cases "split_on newline s") auto
  show ?case using Cons[of "[]"] Cons[of "cur @ [x]"] s by (auto)
qed

lemma complete_lines_split: "complete_lines s = butlast (split_on newline s)"
  using lines_from_split[of "[]" s] split_on_nonempty[of newline s]
  by (cases "split_on newline s") (auto simp: complete_lines_def)

lemma read_loop_char:
  "newline \<notin> set buf \<Longrightarrow>
   read_loop p h d buf cs =
     (last (split_on newline (buf @ snd (decode h d (concat cs)))),
      process_lines p (butlast (split_on newline (buf @ snd (decode h d (concat cs))))))"
proof (induction cs arbitrary: d buf)
  case Nil
  then show ?case by (simp add: split_on_no_sep)
next
  case (Cons c cs)
  obtain d1 t1 where d1: "decode h d c = (d1, t1)" by (cases "decode h d c")
  obtain d2 t2 where d2: "decode h d1 (concat cs) = (d2, t2)" by (cases "decode h d1 (concat cs)")
  let ?s1 = "split_on newline (buf @ t1)"
  have nb: "newline \<notin> set (last ?s1)" by (rule split_on_last_no_sep)
  have ih: "read_loop p h d1 (last ?s1) cs =
     (last (split_on newline (last ?s1 @ t2)),
      process_lines p (butlast (split_on newline (last ?s1 @ t2))))"
    using Cons.IH[OF nb, of d1] d2 by simp
  have sp: "split_on newline (buf @ t1 @ t2) = butlast ?s1 @ split_on newline (last ?s1 @ t2)"
    using split_on_append[of newline "buf @ t1" t2] by simp
  have ne: "split_on newline (last ?s1 @ t2) \<noteq> []" by (rule split_on_nonempty)
  have dec: "snd (decode h d (concat (c # cs))) = t1 @ t2"
    using d1 d2 by (simp add: decode_append)
  show ?case
    using ih sp ne dec d1 split_on_nonempty[of newline "buf @ t1"]
    by (simp add: butlast_append process_lines_append Let_def)
qed

lemma stream_outcome_char:
  assumes "fetch (post_request (API_BASE @ ''/debate/stream'') messages modelIds) = Inr res"
      and "ok res" and "res_body res = Some b"
  shows "events (sendDebateRoundStream API_BASE fetch JSON_parse h d0 messages modelIds) =
           process_lines JSON_parse (butlast (split_on newline (stream_text h d0 (chunks b))))"
    and "leftover (sendDebateRoundStream API_BASE fetch JSON_parse h d0 messages modelIds) =
           last (split_on newline (stream_text h d0 (chunks b)))"
  using assms read_loop_char[of "[]" JSON_parse h d0 "chunks b"]
  by (simp_all add: sendDebateRoundStream_def stream_text_def Let_def)

section \<open>Lemmas about the requests and the error branch\<close>

lemma stream_requests: 
  "s_requests (sendDebateRoundStream API_BASE fetch JSON_parse h d0 messages modelIds) =
     [post_request (API_BASE @ ''/debate/stream'') messages modelIds]"
  by (simp add: sendDebateRoundStream_def Let_def split: sum.splits option.splits prod.splits)

lemma stream_http_error:
  assumes "fetch (post_request (API_BASE @ ''/debate/stream'') messages modelIds) = Inr res"
      and "\<not> ok res"
  shows "s_result (sendDebateRoundStream API_BASE fetch JSON_parse h d0 messages modelIds) =
           Inl (throw_http_error res)"
    and "events (sendDebateRoundStream API_BASE fetch JSON_parse h d0 messages modelIds) = []"
  using assms by (simp_all add: sendDebateRoundStream_def Let_def)

lemma round_http_error:
  assumes "fetch (post_request (API_BASE @ ''/debate'') messages modelIds) = Inr res"
      and "\<not> ok res"
  shows "result (sendDebateRound API_BASE fetch messages modelIds) = Inl (throw_http_error res)"
  using assms by (simp add: sendDebateRound_def Let_def)

section \<open>Lemmas about the App component\<close>

lemma onEvent_Some: "\<exists>q. onEvent ev (Some p) = Some q"
  by (simp add: onEvent_def Let_def)

lemma not_inherited_not_proto:
  "k \<notin> set (map fst object_prototype) \<Longrightarrow> k \<noteq> ''__proto__''"
  by (auto simp: object_prototype_def)

lemma obj_get_own:
  "k \<notin> set (map fst object_prototype) \<Longrightarrow> obj_get obj k = map_of obj k"
proof -
  assume "k \<notin> set (map fst object_prototype)"
  then have "map_of object_prototype k = None" by (simp add: map_of_eq_None_iff)
  then show ?thesis by (simp add: obj_get_def split: option.splits)
qed

lemma map_of_obj_set_other: "j \<noteq> k \<Longrightarrow> map_of (obj_set obj j v) k = map_of obj k"
  by (simp add: obj_set_def update_conv')

lemma map_of_obj_set_same:
  "k \<noteq> ''__proto__'' \<Longrightarrow> map_of (obj_set obj k v) k = Some v"
  by (simp add: obj_set_def update_conv')

lemma lane_content_other:
  "model_id ev \<noteq> k \<Longrightarrow> lane_content k (onEvent ev st) = lane_content k st"
  by (cases st)
     (auto simp: onEvent_def lane_content_def Let_def map_of_obj_set_other split: option.splits)

lemma lane_content_onEvent:
  assumes "k \<notin> set (map fst object_prototype)"
  shows "lane_content k (onEvent ev (Some p)) =
     lane_content k (Some p) @
     (if model_id ev = k then (case delta ev of None \<Rightarrow> [] | Some dl \<Rightarrow> dl) else [])"
proof (cases "model_id ev = k")
  case False
  then show ?thesis using lane_content_other[of ev k "Some p"] by simp
next
  case True
  have np: "k \<noteq> ''__proto__''" using assms by (rule not_inherited_not_proto)
  have g: "obj_get (st_content p) k = map_of (st_content p) k" using assms by (rule obj_get_own)
  show ?thesis
    using True np g
    by (auto simp: onEvent_def lane_content_def Let_def map_of_obj_set_same split: option.splits)
qed

lemma lane_content_deliver:
  assumes "k \<notin> set (map fst object_prototype)"
  shows "lane_content k (deliver evs (Some p)) = lane_content k (Some p) @ lane_deltas k evs"
proof (induction evs arbitrary: p)
  case Nil
  then show ?case by (simp add: deliver_def lane_deltas_def List.map_filter_simps)
next
  case (Cons ev evs)
  obtain q where q: "onEvent ev (Some p) = Some q" using onEvent_Some by blast
  have "lane_content k (deliver (ev # evs) (Some p)) = lane_content k (deliver evs (Some q))"
    using q by (simp add: deliver_def)
  also have "\<dots> = lane_content k (Some q) @ lane_deltas k evs" by (rule Cons.IH)
  also have "lane_content k (Some q) =
     lane_content k (Some p) @
     (if model_id ev = k then (case delta ev of None \<Rightarrow> [] | Some dl \<Rightarrow> dl) else [])"
    using lane_content_onEvent[OF assms, of ev p] q by simp
  finally show ?case
    by (auto simp: lane_deltas_def List.map_filter_simps split: option.splits)
qed



section \<open>The event stream of sendDebateRoundStream\<close>

text \<open>
  C1. When \<open>POST /debate/stream\<close> answers with a 2xx status and a body,
  \<open>sendDebateRoundStream\<close> calls \<open>onEvent\<close> once for each complete (newline-terminated)
  line of the decoded stream that starts with \<open>data: \<close> and whose remainder parses, with
  the parsed value, in the order of the lines. A \<open>data: \<close> line that does not parse
  contributes nothing and changes no later event.
\<close>

theorem C1_events_are_parsed_data_lines:
  assumes "fetch (post_request (API_BASE @ ''/debate/stream'') messages modelIds) = Inr res"
      and "ok res" and "res_body res = Some b"
  shows "events (sendDebateRoundStream API_BASE fetch JSON_parse h d0 messages modelIds) =
           List.map_filter (event_of_line JSON_parse)
             (complete_lines (stream_text h d0 (chunks b)))"
  using assms
    stream_outcome_char(1)[where fetch = fetch and res = res and b = b and JSON_parse = JSON_parse]
  by (simp add: process_lines_map_filter complete_lines_split)

theorem C1_events_witness:
  "ok (stream_response two_events_chunks) \<and>
   complete_lines (stream_text latin_decoder () two_events_chunks) =
     [''data: {a}'', ''data: oops'', ''data: {b}''] \<and>
   events (sendDebateRoundStream ''/api'' (\<lambda>r. Inr (stream_response two_events_chunks))
             braces_parse latin_decoder () [] None) = [''{a}'', ''{b}'']"
proof -
  have cl: "complete_lines (stream_text latin_decoder () two_events_chunks) =
     [''data: {a}'', ''data: oops'', ''data: {b}'']"
    by (simp add: complete_lines_def stream_text_def two_events_chunks_def latin_decoder_def
        newline_def)
  have "events (sendDebateRoundStream ''/api'' (\<lambda>r. Inr (stream_response two_events_chunks))
             braces_parse latin_decoder () [] None) =
        List.map_filter (event_of_line braces_parse)
          (complete_lines (stream_text latin_decoder () (chunks \<lparr> chunks = two_events_chunks, closed_ok = True \<rparr>)))"
    using C1_events_are_parsed_data_lines[where fetch = "\<lambda>r. Inr (stream_response two_events_chunks)"
        and res = "stream_response two_events_chunks"
        and b = "\<lparr> chunks = two_events_chunks, closed_ok = True \<rparr>"]
    by (simp add: stream_response_def)
  then show ?thesis
    using cl by (simp add: List.map_filter_simps event_of_line_def braces_parse_def stream_response_def)
qed

text \<open>
  C9. The events given to \<open>onEvent\<close> depend only on the concatenation of the bytes read,
  not on how the reads split them. No condition on the end of the stream is needed:
  the equality holds in particular for streams that end with a newline.
\<close>

theorem C9_events_independent_of_chunking:
  assumes "fetchA (post_request (API_BASE @ ''/debate/stream'') messages modelIds) = Inr resA"
      and "fetchB (post_request (API_BASE @ ''/debate/stream'') messages modelIds) = Inr resB"
      and "ok resA" and "ok resB"
      and "res_body resA = Some bA" and "res_body resB = Some bB"
      and "concat (chunks bA) = concat (chunks bB)"
  shows "events (sendDebateRoundStream API_BASE fetchA JSON_parse h d0 messages modelIds) =
         events (sendDebateRoundStream API_BASE fetchB JSON_parse h d0 messages modelIds)"
  using assms
    stream_outcome_char(1)[where fetch = fetchA and res = resA and b = bA
      and JSON_parse = JSON_parse and h = h and ?d0.0 = d0]
    stream_outcome_char(1)[where fetch = fetchB and res = resB and b = bB
      and JSON_parse = JSON_parse and h = h and ?d0.0 = d0]
  by (simp add: stream_text_def)

theorem C9_chunking_witness:
  "concat two_events_chunks = concat two_events_rechunked \<and>
   two_events_chunks \<noteq> two_events_rechunked \<and>
   events (sendDebateRoundStream ''/api'' (\<lambda>r. Inr (stream_response two_events_chunks))
             braces_parse latin_decoder () [] None) =
   events (sendDebateRoundStream ''/api'' (\<lambda>r. Inr (stream_response two_events_rechunked))
             braces_parse latin_decoder () [] None)"
proof -
  have c: "concat two_events_chunks = concat two_events_rechunked"
    by (simp add: two_events_chunks_def two_events_rechunked_def)
  have "events (sendDebateRoundStream ''/api'' (\<lambda>r. Inr (stream_response two_events_chunks))
             braces_parse latin_decoder () [] None) =
   events (sendDebateRoundStream ''/api'' (\<lambda>r. Inr (stream_response two_events_rechunked))
             braces_parse latin_decoder () [] None)"
    using c C9_events_independent_of_chunking[where
          fetchA = "\<lambda>r. Inr (stream_response two_events_chunks)"
          and fetchB = "\<lambda>r. Inr (stream_response two_events_rechunked)"
          and resA = "stream_response two_events_chunks"
          and resB = "stream_response two_events_rechunked"
          and bA = "\<lparr> chunks = two_events_chunks, closed_ok = True \<rparr>"
          and bB = "\<lparr> chunks = two_events_rechunked, closed_ok = True \<rparr>"]
    by (simp add: stream_response_def)
  then show ?thesis using c by (simp add: two_events_chunks_def two_events_rechunked_def)
qed

text \<open>
  C10. If the decoded stream is \<open>t @ l\<close> where \<open>l\<close> is the text after the last newline,
  the events are those of the complete lines of \<open>t\<close> alone, whatever \<open>l\<close> is, and \<open>l\<close> is
  what the local \<open>buf\<close> holds when the loop is left. An event record on an unterminated
  last line is never given to \<open>onEvent\<close>.
\<close>

theorem C10_unterminated_last_line_dropped:
  assumes "fetch (post_request (API_BASE @ ''/debate/stream'') messages modelIds) = Inr res"
      and "ok res" and "res_body res = Some b"
      and "stream_text h d0 (chunks b) = t @ l"
      and "t = [] \<or> last t = newline"
      and "newline \<notin> set l"
  shows "events (sendDebateRoundStream API_BASE fetch JSON_parse h d0 messages modelIds) =
           List.map_filter (event_of_line JSON_parse) (complete_lines t) \<and>
         leftover (sendDebateRoundStream API_BASE fetch JSON_parse h d0 messages modelIds) = l"
  using assms
    stream_outcome_char[where fetch = fetch and res = res and b = b
      and JSON_parse = JSON_parse and h = h and ?d0.0 = d0]
    split_on_tail[of t newline l]
  by (simp add: process_lines_map_filter complete_lines_split)

theorem C10_unterminated_witness:
  "stream_text latin_decoder () unterminated_chunks = (''data: {a}'' @ [newline]) @ ''data: {done}'' \<and>
   event_of_line braces_parse ''data: {done}'' = Some ''{done}'' \<and>
   events (sendDebateRoundStream ''/api'' (\<lambda>r. Inr (stream_response unterminated_chunks))
             braces_parse latin_decoder () [] None) = [''{a}''] \<and>
   leftover (sendDebateRoundStream ''/api'' (\<lambda>r. Inr (stream_response unterminated_chunks))
             braces_parse latin_decoder () [] None) = ''data: {done}''"
proof -
  have st: "stream_text latin_decoder () (chunks \<lparr> chunks = unterminated_chunks, closed_ok = True \<rparr>) =
      (''data: {a}'' @ [newline]) @ ''data: {done}''"
    by (simp add: stream_text_def unterminated_chunks_def latin_decoder_def)
  have "events (sendDebateRoundStream ''/api'' (\<lambda>r. Inr (stream_response unterminated_chunks))
             braces_parse latin_decoder () [] None) =
           List.map_filter (event_of_line braces_parse) (complete_lines (''data: {a}'' @ [newline])) \<and>
         leftover (sendDebateRoundStream ''/api'' (\<lambda>r. Inr (stream_response unterminated_chunks))
             braces_parse latin_decoder () [] None) = ''data: {done}''"
    using st C10_unterminated_last_line_dropped[where
          fetch = "\<lambda>r. Inr (stream_response unterminated_chunks)"
          and res = "stream_response unterminated_chunks"
          and b = "\<lparr> chunks = unterminated_chunks, closed_ok = True \<rparr>"
          and h = latin_decoder and ?d0.0 = "()"
          and t = "''data: {a}'' @ [newline]" and l = "''data: {done}''"]
    by (simp add: stream_response_def newline_def)
  then show ?thesis
    using st
    by (simp add: List.map_filter_simps event_of_line_def braces_parse_def complete_lines_def
        newline_def)
qed

section \<open>Requests and errors of the api functions\<close>

text \<open>
  C6. For every list of messages and of model identifiers, \<open>sendDebateRound\<close> issues one
  request, a POST to \<open>API_BASE/debate\<close>, and \<open>sendDebateRoundStream\<close> one request, a POST to
  \<open>API_BASE/debate/stream\<close>; both carry the header \<open>Content-Type: application/json\<close> and
  the same body \<open>{"messages": ..., "model_ids": ...}\<close>.
\<close>

theorem C6_one_post_per_call:
  "requests (sendDebateRound API_BASE fetch messages (Some ids)) =
     [\<lparr> http_method = ''POST'', url = API_BASE @ ''/debate'',
        headers = [(''Content-Type'', ''application/json'')],
        body = Some (JObj [(''messages'', JArr (map message_json messages)),
                           (''model_ids'', JArr (map JStr ids))]) \<rparr>] \<and>
   s_requests (sendDebateRoundStream API_BASE fetch JSON_parse h d0 messages (Some ids)) =
     [\<lparr> http_method = ''POST'', url = API_BASE @ ''/debate/stream'',
        headers = [(''Content-Type'', ''application/json'')],
        body = Some (JObj [(''messages'', JArr (map message_json messages)),
                           (''model_ids'', JArr (map JStr ids))]) \<rparr>]"
  by (simp add: stream_requests sendDebateRound_def post_request_def debate_body_def Let_def)

theorem C6_one_post_witness:
  "requests (sendDebateRound ''/api'' (\<lambda>r. Inl TypeError) hello (Some [''m1'', ''m2''])) =
     [\<lparr> http_method = ''POST'', url = ''/api/debate'',
        headers = [(''Content-Type'', ''application/json'')],
        body = Some (JObj [(''messages'',
                             JArr [JObj [(''role'', JStr ''user''), (''content'', JStr ''hi'')]]),
                           (''model_ids'', JArr [JStr ''m1'', JStr ''m2''])]) \<rparr>] \<and>
   s_requests (sendDebateRoundStream ''/api'' (\<lambda>r. Inl TypeError) braces_parse latin_decoder ()
                 hello (Some [''m1'', ''m2''])) =
     [\<lparr> http_method = ''POST'', url = ''/api/debate/stream'',
        headers = [(''Content-Type'', ''application/json'')],
        body = Some (JObj [(''messages'',
                             JArr [JObj [(''role'', JStr ''user''), (''content'', JStr ''hi'')]]),
                           (''model_ids'', JArr [JStr ''m1'', JStr ''m2''])]) \<rparr>]"
  using C6_one_post_per_call[of "''/api''" "\<lambda>r. Inl TypeError" hello "[''m1'', ''m2'']"
      braces_parse latin_decoder "()"]
  by (simp add: hello_def message_json_def role_json_def)

text \<open>
  C4, amended. On a non-2xx response both POST calls throw, with the same value, and
  the streaming call gives no event to \<open>onEvent\<close>. The thrown \<open>Error\<close> carries the \<open>error\<close>
  field of the body when the body parses to an object whose \<open>error\<close> field is a non-empty
  string; it carries the status text when the body does not parse, or parses to a value
  other than \<open>null\<close> that has no \<open>error\<close> field or a falsy one, such as the empty string.
\<close>

theorem C4_http_error_thrown:
  assumes "fetch (post_request (API_BASE @ ''/debate'') messages modelIds) = Inr res"
      and "fetch (post_request (API_BASE @ ''/debate/stream'') messages modelIds) = Inr res"
      and "\<not> ok res"
  shows "(\<exists>e. result (sendDebateRound API_BASE fetch messages modelIds) = Inl e \<and>
              s_result (sendDebateRoundStream API_BASE fetch JSON_parse h d0 messages modelIds) = Inl e) \<and>
         events (sendDebateRoundStream API_BASE fetch JSON_parse h d0 messages modelIds) = [] \<and>
         (json_body res = Some (JObj kvs) \<and> map_of kvs ''error'' = Some (JStr m) \<and> m \<noteq> [] \<longrightarrow>
            result (sendDebateRound API_BASE fetch messages modelIds) = Inl (Error (JStr m)) \<and>
            s_result (sendDebateRoundStream API_BASE fetch JSON_parse h d0 messages modelIds) =
              Inl (Error (JStr m))) \<and>
         (json_body res = None \<or>
          (json_body res = Some v \<and> v \<noteq> JNull \<and>
           (\<forall>fs. v = JObj fs \<longrightarrow> \<not> truthy (map_of fs ''error''))) \<longrightarrow>
            result (sendDebateRound API_BASE fetch messages modelIds) =
              Inl (Error (JStr (statusText res))) \<and>
            s_result (sendDebateRoundStream API_BASE fetch JSON_parse h d0 messages modelIds) =
              Inl (Error (JStr (statusText res))))"
proof -
  have r: "result (sendDebateRound API_BASE fetch messages modelIds) = Inl (throw_http_error res)"
    using assms(1,3) by (rule round_http_error)
  have s: "s_result (sendDebateRoundStream API_BASE fetch JSON_parse h d0 messages modelIds) =
           Inl (throw_http_error res)"
    using assms(2,3) by (rule stream_http_error(1))
  have e: "events (sendDebateRoundStream API_BASE fetch JSON_parse h d0 messages modelIds) = []"
    using assms(2,3) by (rule stream_http_error(2))
  have a: "throw_http_error res = Error (JStr m)"
    if "json_body res = Some (JObj kvs)" "map_of kvs ''error'' = Some (JStr m)" "m \<noteq> []"
    using that by (simp add: throw_http_error_def js_or_def)
  have b: "throw_http_error res = Error (JStr (statusText res))" if "json_body res = None"
    using that by (simp add: throw_http_error_def js_or_def)
  have c: "throw_http_error res = Error (JStr (statusText res))"
    if "json_body res = Some v" "v \<noteq> JNull" "\<forall>fs. v = JObj fs \<longrightarrow> \<not> truthy (map_of fs ''error'')"
    using that by (cases v) (auto simp: throw_http_error_def js_or_def split: option.splits)
  show ?thesis using r s e a b c by auto
qed

theorem C4_http_error_witness:
  "\<not> ok (error_response None) \<and>
   result (sendDebateRound ''/api'' (\<lambda>r. Inr (error_response (Some (JObj [(''error'', JStr ''no models'')]))))
             hello None) = Inl (Error (JStr ''no models'')) \<and>
   s_result (sendDebateRoundStream ''/api''
               (\<lambda>r. Inr (error_response (Some (JObj [(''error'', JStr ''no models'')]))))
               braces_parse latin_decoder () hello None) = Inl (Error (JStr ''no models'')) \<and>
   events (sendDebateRoundStream ''/api''
               (\<lambda>r. Inr (error_response (Some (JObj [(''error'', JStr ''no models'')]))))
               braces_parse latin_decoder () hello None) = [] \<and>
   result (sendDebateRound ''/api'' (\<lambda>r. Inr (error_response None)) hello None) =
     Inl (Error (JStr ''Bad Request'')) \<and>
   s_result (sendDebateRoundStream ''/api'' (\<lambda>r. Inr (error_response None))
               braces_parse latin_decoder () hello None) = Inl (Error (JStr ''Bad Request'')) \<and>
   result (sendDebateRound ''/api'' (\<lambda>r. Inr (error_response (Some (JObj [])))) hello None) =
     Inl (Error (JStr ''Bad Request''))"
  using
    C4_http_error_thrown[where fetch = "\<lambda>r. Inr (error_response (Some (JObj [(''error'', JStr ''no models'')])))"
      and res = "error_response (Some (JObj [(''error'', JStr ''no models'')]))"
      and kvs = "[(''error'', JStr ''no models'')]" and m = "''no models''"
      and API_BASE = "''/api''" and messages = hello and modelIds = None
      and JSON_parse = braces_parse and h = latin_decoder and ?d0.0 = "()"]
    C4_http_error_thrown[where fetch = "\<lambda>r. Inr (error_response None)"
      and res = "error_response None"
      and API_BASE = "''/api''" and messages = hello and modelIds = None
      and JSON_parse = braces_parse and h = latin_decoder and ?d0.0 = "()"]
    C4_http_error_thrown[where fetch = "\<lambda>r. Inr (error_response (Some (JObj [])))"
      and res = "error_response (Some (JObj []))" and v = "JObj []"
      and API_BASE = "''/api''" and messages = hello and modelIds = None
      and JSON_parse = braces_parse and h = latin_decoder and ?d0.0 = "()"]
  by (simp add: error_response_def)

text \<open>
  C4 as stated fails for the body \<open>{"error": ""}\<close>: it parses and has an \<open>error\<close> field,
  yet the message is the status text, because \<open>||\<close> falls through on the empty string.
\<close>

theorem C4_empty_error_field_counterexample:
  "\<not> ok (error_response (Some (JObj [(''error'', JStr [])]))) \<and>
   map_of [(''error'', JStr [])] ''error'' = Some (JStr []) \<and>
   statusText (error_response (Some (JObj [(''error'', JStr [])]))) = ''Bad Request'' \<and>
   result (sendDebateRound ''/api'' (\<lambda>r. Inr (error_response (Some (JObj [(''error'', JStr [])]))))
             hello None) = Inl (Error (JStr ''Bad Request'')) \<and>
   result (sendDebateRound ''/api'' (\<lambda>r. Inr (error_response (Some (JObj [(''error'', JStr [])]))))
             hello None) \<noteq> Inl (Error (JStr []))"
  by (simp add: sendDebateRound_def throw_http_error_def js_or_def error_response_def Let_def)

text \<open>
  C7, amended. \<open>getAvailableModels\<close> issues one request, a GET of \<open>API_BASE/models\<close>. It
  returns the empty list on a non-2xx response and on a 2xx response whose body parses
  to a value other than \<open>null\<close> without a \<open>models\<close> field; it returns the \<open>models\<close> array
  when the body has one; and it rejects when the body of a 2xx response does not parse.
\<close>

theorem C7_models_or_empty:
  assumes "fetch (get_request (API_BASE @ ''/models'')) = Inr res"
  shows "requests (getAvailableModels API_BASE fetch) =
           [\<lparr> http_method = ''GET'', url = API_BASE @ ''/models'', headers = [], body = None \<rparr>] \<and>
         (\<not> ok res \<longrightarrow> result (getAvailableModels API_BASE fetch) = Inr (JArr [])) \<and>
         (ok res \<and> json_body res = Some (JObj kvs) \<and> map_of kvs ''models'' = Some (JArr ms) \<longrightarrow>
            result (getAvailableModels API_BASE fetch) = Inr (JArr ms)) \<and>
         (ok res \<and> json_body res = Some v \<and> v \<noteq> JNull \<and>
          (\<forall>fs. v = JObj fs \<longrightarrow> map_of fs ''models'' = None) \<longrightarrow>
            result (getAvailableModels API_BASE fetch) = Inr (JArr [])) \<and>
         (ok res \<and> json_body res = None \<longrightarrow>
            result (getAvailableModels API_BASE fetch) = Inl SyntaxError)"
proof -
  have c: "result (getAvailableModels API_BASE fetch) = Inr (JArr [])"
    if "ok res" "json_body res = Some v" "v \<noteq> JNull" "\<forall>fs. v = JObj fs \<longrightarrow> map_of fs ''models'' = None"
    using that assms by (cases v) (auto simp: getAvailableModels_def js_or_def Let_def)
  show ?thesis using assms c
    by (auto simp: getAvailableModels_def get_request_def js_or_def Let_def)
qed

theorem C7_models_witness:
  "result (getAvailableModels ''/api'' (\<lambda>r. Inr (error_response None))) = Inr (JArr []) \<and>
   result (getAvailableModels ''/api''
             (\<lambda>r. Inr (ok_response (Some (JObj [(''models'', JArr [JStr ''m1'', JStr ''m2''])]))))) =
     Inr (JArr [JStr ''m1'', JStr ''m2'']) \<and>
   result (getAvailableModels ''/api'' (\<lambda>r. Inr (ok_response (Some (JObj []))))) = Inr (JArr []) \<and>
   requests (getAvailableModels ''/api'' (\<lambda>r. Inr (ok_response (Some (JObj []))))) =
     [\<lparr> http_method = ''GET'', url = ''/api/models'', headers = [], body = None \<rparr>] \<and>
   result (getAvailableModels ''/api'' (\<lambda>r. Inr (ok_response None))) = Inl SyntaxError"
  using
    C7_models_or_empty[where fetch = "\<lambda>r. Inr (error_response None)" and res = "error_response None"
      and API_BASE = "''/api''"]
    C7_models_or_empty[where fetch = "\<lambda>r. Inr (ok_response (Some (JObj [(''models'', JArr [JStr ''m1'', JStr ''m2''])])))"
      and res = "ok_response (Some (JObj [(''models'', JArr [JStr ''m1'', JStr ''m2''])]))"
      and kvs = "[(''models'', JArr [JStr ''m1'', JStr ''m2''])]" and ms = "[JStr ''m1'', JStr ''m2'']"
      and API_BASE = "''/api''"]
    C7_models_or_empty[where fetch = "\<lambda>r. Inr (ok_response (Some (JObj [])))"
      and res = "ok_response (Some (JObj []))" and v = "JObj []" and API_BASE = "''/api''"]
    C7_models_or_empty[where fetch = "\<lambda>r. Inr (ok_response None)"
      and res = "ok_response None" and API_BASE = "''/api''"]
  by (simp add: error_response_def ok_response_def)

text \<open>
  C7 as stated fails for a 2xx response whose body has no \<open>models\<close> field because it is
  not JSON at all, or is \<open>null\<close>: the call throws instead of returning the empty list.
\<close>

theorem C7_unparsable_body_counterexample:
  "ok (ok_response None) \<and> json_body (ok_response None) = None \<and>
   result (getAvailableModels ''/api'' (\<lambda>r. Inr (ok_response None))) = Inl SyntaxError \<and>
   ok (ok_response (Some JNull)) \<and>
   result (getAvailableModels ''/api'' (\<lambda>r. Inr (ok_response (Some JNull)))) = Inl TypeError"
  by (simp add: getAvailableModels_def ok_response_def Let_def)

section \<open>The submit handler\<close>

text \<open>
  C2, amended. For a provider whose identifier is not the name of a property that a
  plain object inherits from \<open>Object.prototype\<close>, the content the streaming turn holds is
  the concatenation, in arrival order, of the delta texts of that provider's events. For
  every provider, an event of another provider leaves its content as it is. The deltas
  \<open>He\<close>, \<open>llo\<close>, then \<open>done\<close>, of a provider \<open>A\<close> give \<open>Hello\<close>.
\<close>

theorem C2_lane_content_is_concatenated_deltas:
  "(k \<notin> set (map fst object_prototype) \<longrightarrow>
      lane_content k (deliver evs (fresh_turn u)) = lane_deltas k evs) \<and>
   (model_id ev \<noteq> k \<longrightarrow> lane_content k (onEvent ev st) = lane_content k st) \<and>
   lane_content ''A'' (deliver [Delta ''A'' ''He'', Delta ''A'' ''llo'', Done ''A''] (fresh_turn u)) =
     ''Hello''"
proof -
  have a: "lane_content j (deliver es (fresh_turn u)) = lane_deltas j es"
    if "j \<notin> set (map fst object_prototype)" for j es
    using lane_content_deliver[OF that, of es "\<lparr> st_user = u, st_content = [], st_errors = [] \<rparr>"]
    by (simp add: fresh_turn_def lane_content_def)
  have n: "''A'' \<notin> set (map fst object_prototype)"
    by (simp add: object_prototype_def)
  have c: "lane_deltas ''A'' [Delta ''A'' ''He'', Delta ''A'' ''llo'', Done ''A''] = ''Hello''"
    by (simp add: lane_deltas_def List.map_filter_simps Delta_def Done_def)
  show ?thesis using a a[OF n] c lane_content_other[of ev k st] by simp
qed

theorem C2_lane_content_witness:
  "''A'' \<notin> set (map fst object_prototype) \<and>
   model_id (Delta ''B'' ''x'') \<noteq> ''A'' \<and>
   lane_content ''A''
     (deliver [Delta ''A'' ''He'', Delta ''B'' ''x'', Delta ''A'' ''llo'', Done ''A'', Done ''B'']
        (fresh_turn ''q'')) = ''Hello'' \<and>
   lane_content ''A'' (onEvent (Delta ''B'' ''x'') (deliver [Delta ''A'' ''He''] (fresh_turn ''q''))) =
     lane_content ''A'' (deliver [Delta ''A'' ''He''] (fresh_turn ''q'')) \<and>
   lane_content ''A'' (deliver [Delta ''A'' ''He''] (fresh_turn ''q'')) = ''He''"
proof -
  have n: "''A'' \<notin> set (map fst object_prototype)"
    by (simp add: object_prototype_def)
  show ?thesis
    using n
      C2_lane_content_is_concatenated_deltas[of "''A''"
        "[Delta ''A'' ''He'', Delta ''B'' ''x'', Delta ''A'' ''llo'', Done ''A'', Done ''B'']" "''q''"
        "Delta ''B'' ''x''" "deliver [Delta ''A'' ''He''] (fresh_turn ''q'')"]
      C2_lane_content_is_concatenated_deltas[of "''A''" "[Delta ''A'' ''He'']" "''q''"
        "Delta ''B'' ''x''" "None"]
    by (simp add: lane_deltas_def List.map_filter_simps Delta_def Done_def)
qed

text \<open>
  C2 as stated fails for a provider named like an inherited property. For the
  identifier \<open>constructor\<close> the first read \<open>next.content[id]\<close> finds the inherited function,
  which is not nullish, so its text is put before the first delta. For \<open>__proto__\<close> the
  write is ignored and no content is ever stored.
\<close>

theorem C2_inherited_name_counterexample:
  "lane_deltas ''constructor'' [Delta ''constructor'' ''Hi'', Done ''constructor''] = ''Hi'' \<and>
   lane_content ''constructor''
     (deliver [Delta ''constructor'' ''Hi'', Done ''constructor''] (fresh_turn ''q'')) =
     ''function Object() { [native code] }Hi'' \<and>
   lane_deltas ''__proto__'' [Delta ''__proto__'' ''Hi'', Done ''__proto__''] = ''Hi'' \<and>
   lane_content ''__proto__''
     (deliver [Delta ''__proto__'' ''Hi'', Done ''__proto__''] (fresh_turn ''q'')) = []"
  by (simp add: lane_deltas_def List.map_filter_simps Delta_def Done_def deliver_def onEvent_def
      lane_content_def fresh_turn_def Let_def obj_get_def obj_set_def object_prototype_def
      native_function_def)

text \<open>
  C3. A streaming round over the selected providers \<open>a\<close> and \<open>b\<close> in which \<open>a\<close> sends one
  delta and \<open>done\<close>, and \<open>b\<close> sends \<open>done\<close> alone: the recorded turn has a response for \<open>a\<close>
  and none for \<open>b\<close>. The handler reads only \<open>delta\<close> and \<open>error\<close>, and the responses are
  assembled from the keys those two created; the non-streaming branch records one
  response per provider the server answers for.
\<close>

theorem C3_done_only_lane_has_no_entry:
  "selectedModels (idle_state ''hello'' True [''a'', ''b'']) = [''a'', ''b''] \<and>
   turns (fst (handleSubmit
                 (stub_api [Delta ''a'' ''Hi'', Done ''a'', Done ''b''])
                 (idle_state ''hello'' True [''a'', ''b'']))) =
     [\<lparr> user = ''hello'',
        responses = [\<lparr> provider_id = ''a'', resp_content = ''Hi'', resp_error = None \<rparr>] \<rparr>]"
  by (simp add: handleSubmit_def idle_state_def stub_api_def trim_def is_ws_def Let_def
      deliver_def onEvent_def Delta_def Done_def stream_responses_def push_error_only_def
      build_messages_def obj_get_def obj_set_def own_entries_def array_index_def digit_val_def
      object_prototype_def)

text \<open>
  C5, amended. With no model selected the submit handler calls neither api function.
  If the trimmed input is non-empty and no round is loading, it sets the error that asks
  for a model; otherwise (blank input, or a round in progress) it returns before that
  and leaves the state as it is.
\<close>

theorem C5_no_call_without_models:
  assumes "selectedModels s = []"
  shows "snd (handleSubmit api s) = [] \<and>
         (trim (input s) \<noteq> [] \<and> \<not> loading s \<longrightarrow>
            fst (handleSubmit api s) =
              s\<lparr> error := Some ''Please select at least one model to participate.'' \<rparr>) \<and>
         (trim (input s) = [] \<or> loading s \<longrightarrow> fst (handleSubmit api s) = s)"
  using assms by (simp add: handleSubmit_def Let_def select_prompt_def)

theorem C5_no_call_witness:
  "selectedModels (idle_state ''hello'' True []) = [] \<and>
   snd (handleSubmit (stub_api []) (idle_state ''hello'' True [])) = [] \<and>
   error (fst (handleSubmit (stub_api []) (idle_state ''hello'' True []))) =
     Some ''Please select at least one model to participate.'' \<and>
   snd (handleSubmit (stub_api []) (idle_state ''hello'' True [''a''])) \<noteq> [] \<and>
   fst (handleSubmit (stub_api []) (idle_state ''  '' True [])) = idle_state ''  '' True []"
proof -
  have t: "trim ''hello'' = ''hello''" "trim ''  '' = []"
    by (simp_all add: trim_def is_ws_def)
  have n: "snd (handleSubmit (stub_api []) (idle_state ''hello'' True [''a''])) \<noteq> []"
    using t by (simp add: handleSubmit_def idle_state_def stub_api_def Let_def)
  show ?thesis
    using t n
      C5_no_call_without_models[of "idle_state ''hello'' True []" "stub_api []"]
      C5_no_call_without_models[of "idle_state ''  '' True []" "stub_api []"]
    by (simp add: idle_state_def)
qed

text \<open>
  C5 as stated fails for a blank input: with no model selected and only white space
  typed, the handler returns at its first guard and no error is shown.
\<close>

theorem C5_blank_input_counterexample:
  "selectedModels (idle_state ''  '' False []) = [] \<and>
   error (fst (handleSubmit (stub_api []) (idle_state ''  '' False []))) = None \<and>
   error (fst (handleSubmit (stub_api []) (idle_state ''  '' False []))) \<noteq> Some select_prompt"
  by (simp add: handleSubmit_def idle_state_def trim_def is_ws_def Let_def)




end
